theory Spec2Isabelle
  imports Complex_Main
begin

section \<open>The generated command bindings of the desktop front-end\<close>

text \<open>
  The source is \<^verbatim>\<open>apps/desktop-solid/src/utils/tauri.ts\<close>, the client binding that
  tauri-specta generates. It holds the data types exchanged with the backend and one
  asynchronous wrapper per backend command. The wrappers call the imported
  \<^verbatim>\<open>TAURI_INVOKE\<close>; it is a parameter of every definition below.
\<close>

subsection \<open>User-defined types\<close>

text \<open>
  A TypeScript \<^verbatim>\<open>number\<close> is only carried by the bindings, never computed with; it is
  modelled as a real. \<^verbatim>\<open>T | null\<close> is \<open>T option\<close>. Names are the source's. A field
  carries its type as a prefix where two types share the field's name or where the name
  is reserved in Isabelle (such as \<^verbatim>\<open>x\<close>, \<^verbatim>\<open>duration\<close>, \<^verbatim>\<open>size\<close>, \<^verbatim>\<open>show\<close>); the variant
  of a tagged union carries the union's role as a prefix where its tag alone is a
  constant of HOL or the tag of another union (such as \<^verbatim>\<open>image\<close>, \<^verbatim>\<open>top\<close>, \<^verbatim>\<open>screen\<close>).
\<close>

type_synonym number = real

datatype AspectRatio = wide | vertical | square | classic | tall

record Audio =
  audio_duration :: number
  sample_rate :: number
  channels :: number

record AudioConfiguration =
  mute :: bool
  improve :: bool

datatype BackgroundSource =
    source_wallpaper number
  | source_image "string option"
  | source_color "number \<times> number \<times> number"
  | source_gradient "number \<times> number \<times> number" "number \<times> number \<times> number"

record Bounds =
  bounds_x :: number
  bounds_y :: number
  bounds_width :: number
  bounds_height :: number

record 't XY =
  xy_x :: 't
  xy_y :: 't

record Crop =
  crop_position :: "number XY"
  crop_size :: "number XY"

record BackgroundConfiguration =
  source :: BackgroundSource
  blur :: number
  padding :: number
  background_rounding :: number
  inset :: number
  crop :: "Crop option"

datatype CameraXPosition = x_left | x_center | x_right

datatype CameraYPosition = y_top | y_bottom

record CameraPosition =
  position_x :: CameraXPosition
  position_y :: CameraYPosition

record CameraConfiguration =
  hide :: bool
  mirror :: bool
  camera_position :: CameraPosition
  camera_rounding :: number
  shadow :: number

datatype CaptureTarget = target_screen | target_window number

record CaptureWindow =
  window_id :: number
  window_name :: string

datatype CursorType = pointer | circle

record CursorConfiguration =
  hideWhenIdle :: bool
  cursor_size :: number
  cursor_type :: CursorType

datatype DisplaySource = display_screen | display_window Bounds

record HotkeysConfiguration =
  hotkeys_show :: bool

record InProgressRecording =
  recordingDir :: string
  displaySource :: DisplaySource

text \<open>\<^verbatim>\<open>JsonValue<T> = [T]\<close>: a tuple of exactly one element.\<close>

datatype 't JsonValue = JsonValue 't

datatype MacOSPermissionSettings = screenRecording

datatype OSPermissionsCheck = macOS_check bool | other_check

record OSPermissionSettings =
  macOS :: MacOSPermissionSettings

record ProjectConfiguration =
  aspectRatio :: "AspectRatio option"
  background :: BackgroundConfiguration
  camera :: CameraConfiguration
  audio :: AudioConfiguration
  cursor :: CursorConfiguration
  hotkeys :: HotkeysConfiguration

record Video =
  video_duration :: number
  video_width :: number
  video_height :: number
  fps :: number

record ProjectRecordings =
  display :: Video
  recordings_camera :: "Video option"
  recordings_audio :: "Audio option"

record RecordingOptions =
  captureTarget :: CaptureTarget
  cameraLabel :: "string option"
  audioInputName :: "string option"

datatype RenderProgress =
    Starting number
  | EstimatedTotalFrames number
  | FrameRendered number

record SerializedEditorInstance =
  framesSocketUrl :: string
  recordingDuration :: number
  savedProjectConfig :: "ProjectConfiguration option"
  recordings :: ProjectRecordings
  instance_path :: string

datatype VideoType = video_screen | video_output

text \<open>\<^verbatim>\<open>Result<T, E>\<close>, the union discriminated by \<^verbatim>\<open>status\<close>.\<close>

datatype ('t, 'e) Result =
    status_ok (data: 't)
  | status_error (error: 'e)

subsection \<open>Promises, await and try/catch\<close>

text \<open>
  What \<^verbatim>\<open>catch (e)\<close> can receive: a value for which \<^verbatim>\<open>e instanceof Error\<close> holds
  (with its message), or any other value.
\<close>

datatype 'e thrown =
    ErrorInstance string
  | Other 'e

text \<open>A settled promise: it resolved with a value or rejected with a thrown value.\<close>

datatype ('a, 'e) promise =
    Resolved 'a
  | Rejected "'e thrown"

text \<open>
  The body of an \<^verbatim>\<open>async\<close> function is a computation that either throws (\<open>Inl\<close>) or
  yields a value (\<open>Inr\<close>). \<^verbatim>\<open>await p\<close> throws what \<open>p\<close> rejected with; the promise
  an \<^verbatim>\<open>async\<close> function returns rejects with what its body throws.
\<close>

type_synonym ('a, 'e) async = "'e thrown + 'a"

definition await :: "('a, 'e) promise \<Rightarrow> ('a, 'e) async" where
  "await p = (case p of Resolved v \<Rightarrow> Inr v | Rejected x \<Rightarrow> Inl x)"

definition js_return :: "'a \<Rightarrow> ('a, 'e) async" where
  "js_return v = Inr v"

definition js_throw :: "'e thrown \<Rightarrow> ('a, 'e) async" where
  "js_throw x = Inl x"

definition and_then :: "('a, 'e) async \<Rightarrow> ('a \<Rightarrow> ('b, 'e) async) \<Rightarrow> ('b, 'e) async" where
  "and_then c k = (case c of Inl x \<Rightarrow> Inl x | Inr v \<Rightarrow> k v)"

definition try_catch :: "('a, 'e) async \<Rightarrow> ('e thrown \<Rightarrow> ('a, 'e) async) \<Rightarrow> ('a, 'e) async" where
  "try_catch body handler = (case body of Inl x \<Rightarrow> handler x | Inr v \<Rightarrow> Inr v)"

definition async_function :: "('a, 'e) async \<Rightarrow> ('a, 'e) promise" where
  "async_function body = (case body of Inl x \<Rightarrow> Rejected x | Inr v \<Rightarrow> Resolved v)"

text \<open>
  The handler every \<^verbatim>\<open>Result\<close> command repeats:
  \<^verbatim>\<open>if(e instanceof Error) throw e; else return { status: "error", error: e as any };\<close>
  The test \<^verbatim>\<open>e instanceof Error\<close> is the case distinction on the thrown value.
\<close>

definition catch_handler :: "'e thrown \<Rightarrow> (('t, 'e) Result, 'e) async" where
  "catch_handler e =
     (case e of
        ErrorInstance m \<Rightarrow> js_throw e
      | Other v \<Rightarrow> js_return (status_error v))"

subsection \<open>Arguments of an invocation\<close>

text \<open>
  A \<^verbatim>\<open>TAURI_CHANNEL<T>\<close> is handed to the backend by its identifier. The second
  argument of \<^verbatim>\<open>TAURI_INVOKE\<close> is an object literal: a list of named values here.
\<close>

datatype 't TAURI_CHANNEL = Channel nat

datatype invoke_arg =
    arg_string string
  | arg_number number
  | arg_options RecordingOptions
  | arg_bounds Bounds
  | arg_project ProjectConfiguration
  | arg_channel "RenderProgress TAURI_CHANNEL"
  | arg_video_type "VideoType option"
  | arg_settings OSPermissionSettings

type_synonym invoke_args = "(string \<times> invoke_arg) list"

type_synonym ('a, 'e) invoke = "string \<Rightarrow> invoke_args \<Rightarrow> ('a, 'e) promise"

subsection \<open>User-defined commands\<close>

text \<open>
  One definition per command of \<^verbatim>\<open>commands\<close>, in the source's order. The type of an
  invocation is the type the binding declares for it (\<^verbatim>\<open>null\<close> is \<open>unit\<close>); a command
  that declares no error type, and one that discards the resolved value, leaves the type
  open. The binding of \<^verbatim>\<open>openEditor\<close> names its argument \<^verbatim>\<open>id\<close>, here \<open>editor_id\<close>.
\<close>

definition getRecordingOptions ::
  "(RecordingOptions, unit) invoke \<Rightarrow>
     ((RecordingOptions, unit) Result, unit) promise" where
  "getRecordingOptions TAURI_INVOKE =
     async_function
       (try_catch
          (and_then
             (await
               (TAURI_INVOKE ''get_recording_options'' []))
             (\<lambda>data. js_return (status_ok data)))
          catch_handler)"

definition setRecordingOptions ::
  "(unit, unit) invoke \<Rightarrow>
     RecordingOptions \<Rightarrow>
     ((unit, unit) Result, unit) promise" where
  "setRecordingOptions TAURI_INVOKE options =
     async_function
       (try_catch
          (and_then
             (await
               (TAURI_INVOKE ''set_recording_options''
                  [(''options'', arg_options options)]))
             (\<lambda>data. js_return (status_ok data)))
          catch_handler)"

definition createCameraWindow :: "('a, 'e) invoke \<Rightarrow> (unit, 'e) promise" where
  "createCameraWindow TAURI_INVOKE =
     async_function
       (and_then
          (await
            (TAURI_INVOKE ''create_camera_window'' []))
          (\<lambda>_. js_return ()))"

definition startRecording ::
  "(unit, string) invoke \<Rightarrow>
     ((unit, string) Result, string) promise" where
  "startRecording TAURI_INVOKE =
     async_function
       (try_catch
          (and_then
             (await
               (TAURI_INVOKE ''start_recording'' []))
             (\<lambda>data. js_return (status_ok data)))
          catch_handler)"

definition stopRecording ::
  "(unit, string) invoke \<Rightarrow>
     ((unit, string) Result, string) promise" where
  "stopRecording TAURI_INVOKE =
     async_function
       (try_catch
          (and_then
             (await
               (TAURI_INVOKE ''stop_recording'' []))
             (\<lambda>data. js_return (status_ok data)))
          catch_handler)"

definition listCameras ::
  "(string list, 'e) invoke \<Rightarrow>
     (string list, 'e) promise" where
  "listCameras TAURI_INVOKE =
     async_function
       (and_then
          (await
            (TAURI_INVOKE ''list_cameras'' []))
          js_return)"

definition listCaptureWindows ::
  "(CaptureWindow list, 'e) invoke \<Rightarrow>
     (CaptureWindow list, 'e) promise" where
  "listCaptureWindows TAURI_INVOKE =
     async_function
       (and_then
          (await
            (TAURI_INVOKE ''list_capture_windows'' []))
          js_return)"

definition listAudioDevices ::
  "(string list, 'e) invoke \<Rightarrow>
     (string list, 'e) promise" where
  "listAudioDevices TAURI_INVOKE =
     async_function
       (and_then
          (await
            (TAURI_INVOKE ''list_audio_devices'' []))
          js_return)"

definition getPrevRecordings ::
  "(string list, unit) invoke \<Rightarrow>
     ((string list, unit) Result, unit) promise" where
  "getPrevRecordings TAURI_INVOKE =
     async_function
       (try_catch
          (and_then
             (await
               (TAURI_INVOKE ''get_prev_recordings'' []))
             (\<lambda>data. js_return (status_ok data)))
          catch_handler)"

definition showPreviousRecordingsWindow ::
  "('a, 'e) invoke \<Rightarrow>
     (unit, 'e) promise" where
  "showPreviousRecordingsWindow TAURI_INVOKE =
     async_function
       (and_then
          (await
            (TAURI_INVOKE ''show_previous_recordings_window'' []))
          (\<lambda>_. js_return ()))"

definition closePreviousRecordingsWindow ::
  "('a, 'e) invoke \<Rightarrow>
     (unit, 'e) promise" where
  "closePreviousRecordingsWindow TAURI_INVOKE =
     async_function
       (and_then
          (await
            (TAURI_INVOKE ''close_previous_recordings_window'' []))
          (\<lambda>_. js_return ()))"

definition setFakeWindowBounds ::
  "(unit, string) invoke \<Rightarrow>
     string \<Rightarrow>
     Bounds \<Rightarrow>
     ((unit, string) Result, string) promise" where
  "setFakeWindowBounds TAURI_INVOKE name bounds =
     async_function
       (try_catch
          (and_then
             (await
               (TAURI_INVOKE ''set_fake_window_bounds''
                  [(''name'', arg_string name),
                   (''bounds'', arg_bounds bounds)]))
             (\<lambda>data. js_return (status_ok data)))
          catch_handler)"

definition removeFakeWindow ::
  "(unit, string) invoke \<Rightarrow>
     string \<Rightarrow>
     ((unit, string) Result, string) promise" where
  "removeFakeWindow TAURI_INVOKE name =
     async_function
       (try_catch
          (and_then
             (await
               (TAURI_INVOKE ''remove_fake_window'' [(''name'', arg_string name)]))
             (\<lambda>data. js_return (status_ok data)))
          catch_handler)"

definition focusCapturesPanel :: "('a, 'e) invoke \<Rightarrow> (unit, 'e) promise" where
  "focusCapturesPanel TAURI_INVOKE =
     async_function
       (and_then
          (await
            (TAURI_INVOKE ''focus_captures_panel'' []))
          (\<lambda>_. js_return ()))"

definition getCurrentRecording ::
  "(InProgressRecording option JsonValue, unit) invoke \<Rightarrow>
     ((InProgressRecording option JsonValue, unit) Result, unit) promise" where
  "getCurrentRecording TAURI_INVOKE =
     async_function
       (try_catch
          (and_then
             (await
               (TAURI_INVOKE ''get_current_recording'' []))
             (\<lambda>data. js_return (status_ok data)))
          catch_handler)"

definition renderToFile ::
  "('a, 'e) invoke \<Rightarrow>
     string \<Rightarrow>
     string \<Rightarrow>
     ProjectConfiguration \<Rightarrow>
     RenderProgress TAURI_CHANNEL \<Rightarrow>
     (unit, 'e) promise" where
  "renderToFile TAURI_INVOKE outputPath videoId project progressChannel =
     async_function
       (and_then
          (await
            (TAURI_INVOKE ''render_to_file''
               [(''outputPath'', arg_string outputPath),
                (''videoId'', arg_string videoId),
                (''project'', arg_project project),
                (''progressChannel'', arg_channel progressChannel)]))
          (\<lambda>_. js_return ()))"

definition getRenderedVideo ::
  "(string, string) invoke \<Rightarrow>
     string \<Rightarrow>
     ProjectConfiguration \<Rightarrow>
     ((string, string) Result, string) promise" where
  "getRenderedVideo TAURI_INVOKE videoId project =
     async_function
       (try_catch
          (and_then
             (await
               (TAURI_INVOKE ''get_rendered_video''
                  [(''videoId'', arg_string videoId),
                   (''project'', arg_project project)]))
             (\<lambda>data. js_return (status_ok data)))
          catch_handler)"

definition copyFileToPath ::
  "(unit, string) invoke \<Rightarrow>
     string \<Rightarrow>
     string \<Rightarrow>
     ((unit, string) Result, string) promise" where
  "copyFileToPath TAURI_INVOKE src dst =
     async_function
       (try_catch
          (and_then
             (await
               (TAURI_INVOKE ''copy_file_to_path''
                  [(''src'', arg_string src),
                   (''dst'', arg_string dst)]))
             (\<lambda>data. js_return (status_ok data)))
          catch_handler)"

definition copyRenderedVideoToClipboard ::
  "(unit, string) invoke \<Rightarrow>
     string \<Rightarrow>
     ProjectConfiguration \<Rightarrow>
     ((unit, string) Result, string) promise" where
  "copyRenderedVideoToClipboard TAURI_INVOKE videoId project =
     async_function
       (try_catch
          (and_then
             (await
               (TAURI_INVOKE ''copy_rendered_video_to_clipboard''
                  [(''videoId'', arg_string videoId),
                   (''project'', arg_project project)]))
             (\<lambda>data. js_return (status_ok data)))
          catch_handler)"

definition getVideoMetadata ::
  "(number \<times> number, string) invoke \<Rightarrow>
     string \<Rightarrow>
     VideoType option \<Rightarrow>
     ((number \<times> number, string) Result, string) promise" where
  "getVideoMetadata TAURI_INVOKE videoId videoType =
     async_function
       (try_catch
          (and_then
             (await
               (TAURI_INVOKE ''get_video_metadata''
                  [(''videoId'', arg_string videoId),
                   (''videoType'', arg_video_type videoType)]))
             (\<lambda>data. js_return (status_ok data)))
          catch_handler)"

definition createEditorInstance ::
  "(SerializedEditorInstance, string) invoke \<Rightarrow>
     string \<Rightarrow>
     ((SerializedEditorInstance, string) Result, string) promise" where
  "createEditorInstance TAURI_INVOKE videoId =
     async_function
       (try_catch
          (and_then
             (await
               (TAURI_INVOKE ''create_editor_instance''
                  [(''videoId'', arg_string videoId)]))
             (\<lambda>data. js_return (status_ok data)))
          catch_handler)"

definition startPlayback ::
  "('a, 'e) invoke \<Rightarrow>
     string \<Rightarrow>
     ProjectConfiguration \<Rightarrow>
     (unit, 'e) promise" where
  "startPlayback TAURI_INVOKE videoId project =
     async_function
       (and_then
          (await
            (TAURI_INVOKE ''start_playback''
               [(''videoId'', arg_string videoId),
                (''project'', arg_project project)]))
          (\<lambda>_. js_return ()))"

definition stopPlayback ::
  "('a, 'e) invoke \<Rightarrow>
     string \<Rightarrow>
     (unit, 'e) promise" where
  "stopPlayback TAURI_INVOKE videoId =
     async_function
       (and_then
          (await
            (TAURI_INVOKE ''stop_playback'' [(''videoId'', arg_string videoId)]))
          (\<lambda>_. js_return ()))"

definition setPlayheadPosition ::
  "('a, 'e) invoke \<Rightarrow>
     string \<Rightarrow>
     number \<Rightarrow>
     (unit, 'e) promise" where
  "setPlayheadPosition TAURI_INVOKE videoId frameNumber =
     async_function
       (and_then
          (await
            (TAURI_INVOKE ''set_playhead_position''
               [(''videoId'', arg_string videoId),
                (''frameNumber'', arg_number frameNumber)]))
          (\<lambda>_. js_return ()))"

definition openInFinder ::
  "('a, 'e) invoke \<Rightarrow>
     string \<Rightarrow>
     (unit, 'e) promise" where
  "openInFinder TAURI_INVOKE path =
     async_function
       (and_then
          (await
            (TAURI_INVOKE ''open_in_finder'' [(''path'', arg_string path)]))
          (\<lambda>_. js_return ()))"

definition saveProjectConfig ::
  "('a, 'e) invoke \<Rightarrow>
     string \<Rightarrow>
     ProjectConfiguration \<Rightarrow>
     (unit, 'e) promise" where
  "saveProjectConfig TAURI_INVOKE videoId config =
     async_function
       (and_then
          (await
            (TAURI_INVOKE ''save_project_config''
               [(''videoId'', arg_string videoId),
                (''config'', arg_project config)]))
          (\<lambda>_. js_return ()))"

definition openEditor ::
  "('a, 'e) invoke \<Rightarrow>
     string \<Rightarrow>
     (unit, 'e) promise" where
  "openEditor TAURI_INVOKE editor_id =
     async_function
       (and_then
          (await
            (TAURI_INVOKE ''open_editor'' [(''id'', arg_string editor_id)]))
          (\<lambda>_. js_return ()))"

definition openMainWindow :: "('a, 'e) invoke \<Rightarrow> (unit, 'e) promise" where
  "openMainWindow TAURI_INVOKE =
     async_function
       (and_then
          (await
            (TAURI_INVOKE ''open_main_window'' []))
          (\<lambda>_. js_return ()))"

definition openPermissionSettings ::
  "('a, 'e) invoke \<Rightarrow>
     OSPermissionSettings \<Rightarrow>
     (unit, 'e) promise" where
  "openPermissionSettings TAURI_INVOKE settings =
     async_function
       (and_then
          (await
            (TAURI_INVOKE ''open_permission_settings''
               [(''settings'', arg_settings settings)]))
          (\<lambda>_. js_return ()))"

definition doPermissionsCheck ::
  "(OSPermissionsCheck, 'e) invoke \<Rightarrow>
     (OSPermissionsCheck, 'e) promise" where
  "doPermissionsCheck TAURI_INVOKE =
     async_function
       (and_then
          (await
            (TAURI_INVOKE ''do_permissions_check'' []))
          js_return)"

subsection \<open>Views used to state the properties\<close>

text \<open>A \<^verbatim>\<open>JsonValue<T>\<close> as the array it is at run time.\<close>

fun json_array :: "'t JsonValue \<Rightarrow> 't list" where
  "json_array (JsonValue v) = [v]"

text \<open>
  What the caller of a \<^verbatim>\<open>Result\<close> command receives, given how the invocation settled:
  a resolved value \<open>v\<close> arrives as \<^verbatim>\<open>{ status: "ok", data: v }\<close>, a rejection with an
  \<^verbatim>\<open>Error\<close> is rethrown, a rejection with any other value \<open>e\<close> arrives as
  \<^verbatim>\<open>{ status: "error", error: e }\<close>.
\<close>

definition result_contract :: "('t, 'e) promise \<Rightarrow> (('t, 'e) Result, 'e) promise \<Rightarrow> bool" where
  "result_contract invoked returned =
     (case invoked of
        Resolved v \<Rightarrow> returned = Resolved (status_ok v)
      | Rejected (ErrorInstance m) \<Rightarrow> returned = Rejected (ErrorInstance m)
      | Rejected (Other e) \<Rightarrow> returned = Resolved (status_error e))"

text \<open>
  How a failure reaches the caller of a command: not at all, as a typed result value, or
  as an exception (the command's promise rejects, so the caller's \<^verbatim>\<open>await\<close> throws).
  \<open>report_of_result\<close> and \<open>report_of_plain\<close> read it off what a command returned;
  \<open>report_of_invoke\<close> is the report a \<^verbatim>\<open>Result\<close> command gives for an invocation that
  settled as given: typed unless the rejection is an \<^verbatim>\<open>Error\<close>.
\<close>

datatype 'e failure_report =
    no_failure
  | typed_result 'e
  | exception "'e thrown"

definition report_of_result :: "(('t, 'e) Result, 'e) promise \<Rightarrow> 'e failure_report" where
  "report_of_result returned =
     (case returned of
        Resolved (status_ok v) \<Rightarrow> no_failure
      | Resolved (status_error e) \<Rightarrow> typed_result e
      | Rejected x \<Rightarrow> exception x)"

definition report_of_plain :: "('a, 'e) promise \<Rightarrow> 'e failure_report" where
  "report_of_plain returned =
     (case returned of
        Resolved v \<Rightarrow> no_failure
      | Rejected x \<Rightarrow> exception x)"

definition report_of_invoke :: "('t, 'e) promise \<Rightarrow> 'e failure_report" where
  "report_of_invoke invoked =
     (case invoked of
        Resolved v \<Rightarrow> no_failure
      | Rejected (ErrorInstance m) \<Rightarrow> exception (ErrorInstance m)
      | Rejected (Other e) \<Rightarrow> typed_result e)"

text \<open>The components the specification lists for a \<^verbatim>\<open>ProjectConfiguration\<close>, and all of them.\<close>

definition listed_components ::
  "ProjectConfiguration \<Rightarrow>
     AspectRatio option \<times> BackgroundConfiguration \<times> CameraConfiguration \<times>
     AudioConfiguration \<times> CursorConfiguration" where
  "listed_components p = (aspectRatio p, background p, camera p, audio p, cursor p)"

definition all_components ::
  "ProjectConfiguration \<Rightarrow>
     AspectRatio option \<times> BackgroundConfiguration \<times> CameraConfiguration \<times>
     AudioConfiguration \<times> CursorConfiguration \<times> HotkeysConfiguration" where
  "all_components p = (aspectRatio p, background p, camera p, audio p, cursor p, hotkeys p)"

subsection \<open>Example values\<close>

definition example_project :: ProjectConfiguration where
  "example_project =
     \<lparr> aspectRatio = None,
       background =
         \<lparr> source = source_color (255, 255, 255), blur = 0, padding = 0,
           background_rounding = 0, inset = 0, crop = None \<rparr>,
       camera =
         \<lparr> hide = False, mirror = False,
           camera_position = \<lparr> position_x = x_right, position_y = y_bottom \<rparr>,
           camera_rounding = 100, shadow = 50 \<rparr>,
       audio = \<lparr> mute = False, improve = False \<rparr>,
       cursor = \<lparr> hideWhenIdle = False, cursor_size = 0, cursor_type = pointer \<rparr>,
       hotkeys = \<lparr> hotkeys_show = False \<rparr> \<rparr>"

definition example_project_hotkeys_shown :: ProjectConfiguration where
  "example_project_hotkeys_shown = example_project \<lparr> hotkeys := \<lparr> hotkeys_show = True \<rparr> \<rparr>"

text \<open>A backend whose every invocation rejects with a string reason.\<close>

definition rejecting_invoke :: "('a, string) invoke" where
  "rejecting_invoke name args = Rejected (Other ''render failed'')"

text \<open>A backend that reports no recording in progress.\<close>

definition idle_invoke :: "(InProgressRecording option JsonValue, unit) invoke" where
  "idle_invoke name args = Resolved (JsonValue None)"

section \<open>The render engine\<close>

text \<open>
  Modelled from the spec: the render engine (the backend command \<^verbatim>\<open>render_to_file\<close>)
  is not among the sources; the binding only forwards the call. The model follows the
  specification's section 4.3: the job announces \<open>Starting\<close> with its estimate at once;
  the total may be revised upward before the first frame; each frame is encoded into a
  temporary file and announced by \<open>FrameRendered\<close> with its index; a cancellation or a
  failure observed between two frames discards the temporary file; the temporary file is
  renamed to the output path once every frame is encoded.
\<close>

text \<open>
  Modelled from the spec: the disk the engine writes to, a map from a path to the encoded
  frames of the file there, and the temporary path of a render ("write to a temporary
  path, rename on success only"). The specification names no temporary path; the model
  takes the output path with a suffix, which differs from every output path.
\<close>

type_synonym 'b file_system = "string \<Rightarrow> 'b list option"

definition temporary_path :: "string \<Rightarrow> string" where
  "temporary_path outputPath = outputPath @ ''.tmp''"

definition write_frame :: "'b file_system \<Rightarrow> string \<Rightarrow> 'b \<Rightarrow> 'b file_system" where
  "write_frame fs p b =
     fs(p \<mapsto> (case fs p of None \<Rightarrow> [b] | Some written \<Rightarrow> written @ [b]))"

definition rename_file :: "'b file_system \<Rightarrow> string \<Rightarrow> string \<Rightarrow> 'b file_system" where
  "rename_file fs p q = (fs(q := fs p))(p := None)"

definition remove_file :: "'b file_system \<Rightarrow> string \<Rightarrow> 'b file_system" where
  "remove_file fs p = fs(p := None)"

text \<open>
  Modelled from the spec: a render terminates "with success or RenderFailed(reason)", and
  it is cancellable. A job holds the total announced last, the number of frames encoded,
  the progress events emitted so far (oldest first) and the disk. The engine counts
  frames in naturals and emits them as the \<^verbatim>\<open>number\<close> fields of \<^verbatim>\<open>RenderProgress\<close>.
\<close>

datatype render_failure = Cancelled | RenderFailed string

datatype render_phase = Rendering | Succeeded | Stopped render_failure

record 'b render_job =
  phase :: render_phase
  total_frames :: nat
  frames_encoded :: nat
  progress :: "RenderProgress list"
  files :: "'b file_system"
  output_path :: string

text \<open>
  Modelled from the spec: what happens to a running job. The pass over the source
  metadata revises the total, one frame-processing unit elapses, or a cancellation signal
  or a failure is observed.
\<close>

datatype render_input = Revise nat | Advance | Interrupt render_failure

text \<open>
  Modelled from the spec: "emit \<open>Starting{estimate}\<close> immediately". The job opens its
  temporary file, empty.
\<close>

definition start_render :: "nat \<Rightarrow> string \<Rightarrow> 'b file_system \<Rightarrow> 'b render_job" where
  "start_render estimate outputPath fs =
     \<lparr> phase = Rendering,
       total_frames = estimate,
       frames_encoded = 0,
       progress = [Starting (real estimate)],
       files = fs(temporary_path outputPath \<mapsto> []),
       output_path = outputPath \<rparr>"

text \<open>
  Modelled from the spec: one step of a job. An interruption discards the temporary file
  ("render failures clean up temporary output before propagating"). A revision counts
  only upward and before the first frame ("\<open>total_frames\<close> may be revised upward before
  the first \<open>FrameRendered\<close>"). A frame-processing unit encodes the next frame into the
  temporary file and then emits \<open>FrameRendered\<close> with its index ("after each frame is
  durably encoded, strictly increasing, never skipping an index"); once every frame is
  encoded it renames the temporary file to the output path. A terminated job ignores
  every input.
\<close>

definition render_step ::
  "(nat \<Rightarrow> 'b) \<Rightarrow> 'b render_job \<Rightarrow> render_input \<Rightarrow> 'b render_job" where
  "render_step encode j input =
     (case phase j of
        Rendering \<Rightarrow>
          (case input of
             Interrupt why \<Rightarrow>
               j \<lparr> phase := Stopped why,
                   files := remove_file (files j) (temporary_path (output_path j)) \<rparr>
           | Revise n \<Rightarrow>
               if frames_encoded j = 0 \<and> total_frames j < n
               then j \<lparr> total_frames := n,
                        progress := progress j @ [EstimatedTotalFrames (real n)] \<rparr>
               else j
           | Advance \<Rightarrow>
               if frames_encoded j < total_frames j
               then j \<lparr> frames_encoded := Suc (frames_encoded j),
                        progress := progress j @ [FrameRendered (real (frames_encoded j))],
                        files := write_frame (files j) (temporary_path (output_path j))
                                   (encode (frames_encoded j)) \<rparr>
               else j \<lparr> phase := Succeeded,
                        files := rename_file (files j) (temporary_path (output_path j))
                                   (output_path j) \<rparr>)
      | Succeeded \<Rightarrow> j
      | Stopped why \<Rightarrow> j)"

text \<open>
  Modelled from the spec: a render of a recording whose frames \<open>encode\<close> yields, with the
  given estimate, to the given output path, on the given disk, under the given inputs.
  Every prefix of a run is a run, so a property of \<open>render\<close> for all inputs is a property
  of every moment of every run.
\<close>

definition render ::
  "(nat \<Rightarrow> 'b) \<Rightarrow> nat \<Rightarrow> string \<Rightarrow> 'b file_system \<Rightarrow> render_input list \<Rightarrow>
     'b render_job" where
  "render encode estimate outputPath fs inputs =
     foldl (render_step encode) (start_render estimate outputPath fs) inputs"

text \<open>The totals announced by \<open>EstimatedTotalFrames\<close> events, in the order of the stream.\<close>

fun revised_totals :: "RenderProgress list \<Rightarrow> number list" where
  "revised_totals [] = []"
| "revised_totals (EstimatedTotalFrames n # events) = n # revised_totals events"
| "revised_totals (Starting n # events) = revised_totals events"
| "revised_totals (FrameRendered i # events) = revised_totals events"

text \<open>
  What holds of a job at every moment: the events emitted so far, the announced total,
  and the two paths, by phase.
\<close>

definition render_invariant ::
  "(nat \<Rightarrow> 'b) \<Rightarrow> nat \<Rightarrow> string \<Rightarrow> 'b file_system \<Rightarrow> 'b render_job \<Rightarrow> bool" where
  "render_invariant encode estimate outputPath fs j =
     (output_path j = outputPath \<and>
      frames_encoded j \<le> total_frames j \<and>
      progress j =
        Starting (real estimate) # map EstimatedTotalFrames (revised_totals (progress j)) @
        map (\<lambda>i. FrameRendered (real i)) [0..<frames_encoded j] \<and>
      real (total_frames j) = last (real estimate # revised_totals (progress j)) \<and>
      (case phase j of
         Rendering \<Rightarrow>
           files j outputPath = fs outputPath \<and>
           files j (temporary_path outputPath) = Some (map encode [0..<frames_encoded j])
       | Stopped why \<Rightarrow>
           files j outputPath = fs outputPath \<and>
           files j (temporary_path outputPath) = None
       | Succeeded \<Rightarrow>
           frames_encoded j = total_frames j \<and>
           files j outputPath = Some (map encode [0..<total_frames j]) \<and>
           files j (temporary_path outputPath) = None))"

text \<open>
  For the examples: an empty disk, a disk that holds an earlier export at
  \<^verbatim>\<open>out.mp4\<close>, and an encoder.
\<close>

definition empty_disk :: "nat file_system" where
  "empty_disk p = None"

definition disk_with_earlier_export :: "nat file_system" where
  "disk_with_earlier_export = empty_disk(''out.mp4'' \<mapsto> [7, 8, 9])"

definition example_encode :: "nat \<Rightarrow> nat" where
  "example_encode i = 100 + i"

section \<open>The editor instance\<close>

text \<open>
  Modelled from the spec: the editor instance (the backend commands \<^verbatim>\<open>start_playback\<close>,
  \<^verbatim>\<open>stop_playback\<close> and \<^verbatim>\<open>set_playhead_position\<close>) is not among the sources. The model
  follows the specification's section 4.4: \<open>seek\<close> clamps the requested frame number to
  \<open>[0, totalFrames - 1]\<close>; while playing, each tick streams the frame at the playhead and
  then advances the playhead; at the end of the track playback stops.
\<close>






section \<open>Properties of the bindings\<close>

subsection \<open>The three shapes of a command body\<close>

lemma result_command_cases:
  "async_function
     (try_catch (and_then (await p) (\<lambda>data. js_return (status_ok data))) catch_handler) =
     (case p of
        Resolved v \<Rightarrow> Resolved (status_ok v)
      | Rejected (ErrorInstance m) \<Rightarrow> Rejected (ErrorInstance m)
      | Rejected (Other e) \<Rightarrow> Resolved (status_error e))"
  by (simp add: async_function_def try_catch_def and_then_def await_def js_return_def
      js_throw_def catch_handler_def split: promise.split thrown.split)

lemma void_command_cases:
  "async_function (and_then (await p) (\<lambda>_. js_return ())) =
     (case p of Resolved v \<Rightarrow> Resolved () | Rejected x \<Rightarrow> Rejected x)"
  by (simp add: async_function_def and_then_def await_def js_return_def split: promise.split)

lemma plain_command_cases:
  "async_function (and_then (await p) js_return) = p"
  by (simp add: async_function_def and_then_def await_def js_return_def split: promise.split)

lemma result_command_contract:
  "result_contract p
     (async_function
        (try_catch (and_then (await p) (\<lambda>data. js_return (status_ok data))) catch_handler))"
  unfolding result_command_cases
  by (simp add: result_contract_def split: promise.split thrown.split)

lemma result_command_report:
  "report_of_result
     (async_function
        (try_catch (and_then (await p) (\<lambda>data. js_return (status_ok data))) catch_handler)) =
   report_of_invoke p"
  unfolding result_command_cases
  by (simp add: report_of_result_def report_of_invoke_def split: promise.split thrown.split)

lemma void_command_report:
  "report_of_plain (async_function (and_then (await p) (\<lambda>_. js_return ()))) =
   report_of_plain p"
  unfolding void_command_cases
  by (simp add: report_of_plain_def split: promise.split)

lemma plain_command_report:
  "report_of_plain (async_function (and_then (await p) js_return)) = report_of_plain p"
  unfolding plain_command_cases by (rule refl)

subsection \<open>Commands that return a \<^verbatim>\<open>Result\<close>\<close>

text \<open>
  C9. Every command whose binding returns a \<^verbatim>\<open>Result\<close> (thirteen of the thirty), for
  every backend and every argument: when the invocation resolves with \<open>v\<close> the caller
  receives \<^verbatim>\<open>{ status: "ok", data: v }\<close>; when it rejects with an instance of
  \<^verbatim>\<open>Error\<close> the same value is rethrown, so the returned promise rejects and the
  \<^verbatim>\<open>Result\<close> channel is bypassed; when it rejects with any other value \<open>e\<close> the caller
  receives \<^verbatim>\<open>{ status: "error", error: e }\<close>. The three cases are \<open>result_contract\<close>.
\<close>

theorem result_commands_wrap_invoke:
  "(\<forall>backend.
      result_contract (backend ''get_recording_options'' [])
        (getRecordingOptions backend)) \<and>
   (\<forall>backend options.
      result_contract (backend ''set_recording_options'' [(''options'', arg_options options)])
        (setRecordingOptions backend options)) \<and>
   (\<forall>backend.
      result_contract (backend ''start_recording'' [])
        (startRecording backend)) \<and>
   (\<forall>backend.
      result_contract (backend ''stop_recording'' [])
        (stopRecording backend)) \<and>
   (\<forall>backend.
      result_contract (backend ''get_prev_recordings'' [])
        (getPrevRecordings backend)) \<and>
   (\<forall>backend name bounds.
      result_contract (backend ''set_fake_window_bounds'' [(''name'', arg_string name), (''bounds'', arg_bounds bounds)])
        (setFakeWindowBounds backend name bounds)) \<and>
   (\<forall>backend name.
      result_contract (backend ''remove_fake_window'' [(''name'', arg_string name)])
        (removeFakeWindow backend name)) \<and>
   (\<forall>backend.
      result_contract (backend ''get_current_recording'' [])
        (getCurrentRecording backend)) \<and>
   (\<forall>backend videoId project.
      result_contract (backend ''get_rendered_video'' [(''videoId'', arg_string videoId), (''project'', arg_project project)])
        (getRenderedVideo backend videoId project)) \<and>
   (\<forall>backend src dst.
      result_contract (backend ''copy_file_to_path'' [(''src'', arg_string src), (''dst'', arg_string dst)])
        (copyFileToPath backend src dst)) \<and>
   (\<forall>backend videoId project.
      result_contract (backend ''copy_rendered_video_to_clipboard'' [(''videoId'', arg_string videoId), (''project'', arg_project project)])
        (copyRenderedVideoToClipboard backend videoId project)) \<and>
   (\<forall>backend videoId videoType.
      result_contract (backend ''get_video_metadata'' [(''videoId'', arg_string videoId), (''videoType'', arg_video_type videoType)])
        (getVideoMetadata backend videoId videoType)) \<and>
   (\<forall>backend videoId.
      result_contract (backend ''create_editor_instance'' [(''videoId'', arg_string videoId)])
        (createEditorInstance backend videoId))"
  unfolding
    getRecordingOptions_def setRecordingOptions_def startRecording_def
    stopRecording_def getPrevRecordings_def setFakeWindowBounds_def
    removeFakeWindow_def getCurrentRecording_def getRenderedVideo_def
    copyFileToPath_def copyRenderedVideoToClipboard_def getVideoMetadata_def
    createEditorInstance_def
  by (intro conjI allI result_command_contract)

subsection \<open>The current recording\<close>

text \<open>
  C10. \<^verbatim>\<open>getCurrentRecording\<close> never hands out the recording in progress, or its
  absence, directly. Whenever it succeeds with data \<open>d\<close>, \<open>d\<close> is the one-element array
  the backend resolved with; and when the backend reports that nothing is being recorded
  (it resolves with \<^verbatim>\<open>[null]\<close>), the caller receives
  \<^verbatim>\<open>{ status: "ok", data: [null] }\<close>, an array holding \<^verbatim>\<open>null\<close> rather than \<^verbatim>\<open>null\<close>.
\<close>

theorem getCurrentRecording_one_element_array:
  "(getCurrentRecording backend = Resolved (status_ok d) \<longrightarrow>
      (\<exists>r. json_array d = [r]) \<and> length (json_array d) = 1 \<and>
      backend ''get_current_recording'' [] = Resolved d) \<and>
   (backend ''get_current_recording'' [] = Resolved (JsonValue None) \<longrightarrow>
      getCurrentRecording backend = Resolved (status_ok (JsonValue None)) \<and>
      json_array (JsonValue (None :: InProgressRecording option)) = [None])"
proof -
  have one: "(\<exists>r. json_array v = [r]) \<and> length (json_array v) = 1"
    for v :: "InProgressRecording option JsonValue"
    by (cases v) simp
  have unfolded: "getCurrentRecording backend =
     (case backend ''get_current_recording'' [] of
        Resolved v \<Rightarrow> Resolved (status_ok v)
      | Rejected (ErrorInstance m) \<Rightarrow> Rejected (ErrorInstance m)
      | Rejected (Other e) \<Rightarrow> Resolved (status_error e))"
    unfolding getCurrentRecording_def by (rule result_command_cases)
  show ?thesis
  proof (cases "backend ''get_current_recording'' []")
    case (Resolved v)
    have "getCurrentRecording backend = Resolved (status_ok v)"
      by (simp add: unfolded Resolved)
    with Resolved one [of d] show ?thesis by auto
  next
    case (Rejected x)
    then show ?thesis by (cases x) (simp_all add: unfolded)
  qed
qed

theorem getCurrentRecording_one_element_array_witness:
  "idle_invoke ''get_current_recording'' [] = Resolved (JsonValue None) \<and>
   getCurrentRecording idle_invoke = Resolved (status_ok (JsonValue None)) \<and>
   json_array (JsonValue (None :: InProgressRecording option)) = [None] \<and>
   length (json_array (JsonValue (None :: InProgressRecording option))) = 1"
proof -
  have resolves: "idle_invoke ''get_current_recording'' [] = Resolved (JsonValue None)"
    by (simp add: idle_invoke_def)
  have returned: "getCurrentRecording idle_invoke = Resolved (status_ok (JsonValue None))"
    using getCurrentRecording_one_element_array [of idle_invoke "JsonValue None"] resolves
    by blast
  have "length (json_array (JsonValue (None :: InProgressRecording option))) = 1"
    using getCurrentRecording_one_element_array [of idle_invoke "JsonValue None"] returned
    by blast
  with resolves returned show ?thesis by simp
qed

subsection \<open>The project configuration\<close>

text \<open>
  C8, as stated, fails: the specification lists five components (aspect ratio,
  background, camera overlay, audio treatment, cursor styling), and the type has a
  sixth, \<^verbatim>\<open>hotkeys\<close>. Two configurations that agree on the five listed components can
  differ.
\<close>

theorem project_configuration_five_components_counterexample:
  "listed_components example_project = listed_components example_project_hotkeys_shown \<and>
   example_project \<noteq> example_project_hotkeys_shown"
  by (simp add: listed_components_def example_project_def example_project_hotkeys_shown_def)

text \<open>
  C8, amended. A \<^verbatim>\<open>ProjectConfiguration\<close> consists of exactly six components: a nullable
  aspect ratio, a background configuration (source, blur, padding, rounding, inset and a
  nullable crop), a camera overlay configuration (hide, mirror, position, rounding,
  shadow), an audio treatment (mute, improve), a cursor styling (hide-when-idle, size,
  type) and a hotkeys configuration (show). It is a plain value: two configurations are
  equal exactly when their components are, every combination of components is a
  configuration, and the saved configuration of an editor instance may be absent.
\<close>

theorem project_configuration_components:
  "((p :: ProjectConfiguration) = q) = (all_components p = all_components q) \<and>
   (\<exists>r. all_components r = (ratio, bg, cam, aud, cur, hot)) \<and>
   ((bg = bg') =
      (source bg = source bg' \<and> blur bg = blur bg' \<and> padding bg = padding bg' \<and>
       background_rounding bg = background_rounding bg' \<and> inset bg = inset bg' \<and>
       crop bg = crop bg')) \<and>
   ((cam = cam') =
      (hide cam = hide cam' \<and> mirror cam = mirror cam' \<and>
       camera_position cam = camera_position cam' \<and>
       camera_rounding cam = camera_rounding cam' \<and> shadow cam = shadow cam')) \<and>
   ((aud = aud') = (mute aud = mute aud' \<and> improve aud = improve aud')) \<and>
   ((cur = cur') =
      (hideWhenIdle cur = hideWhenIdle cur' \<and> cursor_size cur = cursor_size cur' \<and>
       cursor_type cur = cursor_type cur')) \<and>
   ((hot = hot') = (hotkeys_show hot = hotkeys_show hot')) \<and>
   (\<exists>i :: SerializedEditorInstance. savedProjectConfig i = None) \<and>
   (\<exists>i :: SerializedEditorInstance. savedProjectConfig i = Some p)"
proof -
  have equal: "(p = q) = (all_components p = all_components q)"
    by (auto simp: all_components_def)
  have onto: "\<exists>r. all_components r = (ratio, bg, cam, aud, cur, hot)"
    by (rule exI [of _ "\<lparr> aspectRatio = ratio, background = bg, camera = cam, audio = aud,
          cursor = cur, hotkeys = hot \<rparr>"])
       (simp add: all_components_def)
  have parts:
    "(bg = bg') =
      (source bg = source bg' \<and> blur bg = blur bg' \<and> padding bg = padding bg' \<and>
       background_rounding bg = background_rounding bg' \<and> inset bg = inset bg' \<and>
       crop bg = crop bg')"
    "(cam = cam') =
      (hide cam = hide cam' \<and> mirror cam = mirror cam' \<and>
       camera_position cam = camera_position cam' \<and>
       camera_rounding cam = camera_rounding cam' \<and> shadow cam = shadow cam')"
    "(aud = aud') = (mute aud = mute aud' \<and> improve aud = improve aud')"
    "(cur = cur') =
      (hideWhenIdle cur = hideWhenIdle cur' \<and> cursor_size cur = cursor_size cur' \<and>
       cursor_type cur = cursor_type cur')"
    "(hot = hot') = (hotkeys_show hot = hotkeys_show hot')"
    by auto
  have absent: "\<exists>i :: SerializedEditorInstance. savedProjectConfig i = None"
    by (rule exI [of _ "\<lparr> framesSocketUrl = [], recordingDuration = 0,
          savedProjectConfig = None,
          recordings = \<lparr> display = \<lparr> video_duration = 0, video_width = 0,
            video_height = 0, fps = 0 \<rparr>, recordings_camera = None,
            recordings_audio = None \<rparr>,
          instance_path = [] \<rparr>"]) simp
  have present: "\<exists>i :: SerializedEditorInstance. savedProjectConfig i = Some p"
    by (rule exI [of _ "\<lparr> framesSocketUrl = [], recordingDuration = 0,
          savedProjectConfig = Some p,
          recordings = \<lparr> display = \<lparr> video_duration = 0, video_width = 0,
            video_height = 0, fps = 0 \<rparr>, recordings_camera = None,
            recordings_audio = None \<rparr>,
          instance_path = [] \<rparr>"]) simp
  from equal onto parts absent present show ?thesis by blast
qed

subsection \<open>How failures reach the caller\<close>

text \<open>
  C6, as stated, fails: \<^verbatim>\<open>renderToFile\<close> has no \<^verbatim>\<open>Result\<close> in its type and no
  \<^verbatim>\<open>try\<close>/\<^verbatim>\<open>catch\<close> in its body. When the backend rejects the invocation with a string
  reason, the caller gets an exception, not a typed result value.
\<close>

theorem render_failure_is_exception_counterexample:
  "report_of_plain
     (renderToFile rejecting_invoke ''/tmp/out.mp4'' ''video-1'' example_project (Channel 0)) =
   exception (Other ''render failed'')"
  unfolding renderToFile_def void_command_cases
  by (simp add: rejecting_invoke_def report_of_plain_def)

text \<open>
  C6, amended. A failure of the backend reaches the front-end as follows, for each of the
  thirty commands, every backend and every argument. A command whose binding returns a
  \<^verbatim>\<open>Result\<close> reports a rejection as a typed result value unless the rejection is an
  instance of \<^verbatim>\<open>Error\<close>, which it rethrows as an exception. Every other command, among
  them render (\<^verbatim>\<open>renderToFile\<close>), playback (\<^verbatim>\<open>startPlayback\<close>, \<^verbatim>\<open>stopPlayback\<close>), seek
  (\<^verbatim>\<open>setPlayheadPosition\<close>) and project save (\<^verbatim>\<open>saveProjectConfig\<close>), has no typed error
  channel: every rejection of the invocation is an exception for the caller, the one the
  invocation rejected with.
\<close>

theorem failure_reporting_of_commands:
  "(\<forall>backend.
      report_of_result (getRecordingOptions backend) =
      report_of_invoke (backend ''get_recording_options'' [])) \<and>
   (\<forall>backend options.
      report_of_result (setRecordingOptions backend options) =
      report_of_invoke (backend ''set_recording_options'' [(''options'', arg_options options)])) \<and>
   (\<forall>backend.
      report_of_plain (createCameraWindow backend) =
      report_of_plain (backend ''create_camera_window'' [])) \<and>
   (\<forall>backend.
      report_of_result (startRecording backend) =
      report_of_invoke (backend ''start_recording'' [])) \<and>
   (\<forall>backend.
      report_of_result (stopRecording backend) =
      report_of_invoke (backend ''stop_recording'' [])) \<and>
   (\<forall>backend.
      report_of_plain (listCameras backend) =
      report_of_plain (backend ''list_cameras'' [])) \<and>
   (\<forall>backend.
      report_of_plain (listCaptureWindows backend) =
      report_of_plain (backend ''list_capture_windows'' [])) \<and>
   (\<forall>backend.
      report_of_plain (listAudioDevices backend) =
      report_of_plain (backend ''list_audio_devices'' [])) \<and>
   (\<forall>backend.
      report_of_result (getPrevRecordings backend) =
      report_of_invoke (backend ''get_prev_recordings'' [])) \<and>
   (\<forall>backend.
      report_of_plain (showPreviousRecordingsWindow backend) =
      report_of_plain (backend ''show_previous_recordings_window'' [])) \<and>
   (\<forall>backend.
      report_of_plain (closePreviousRecordingsWindow backend) =
      report_of_plain (backend ''close_previous_recordings_window'' [])) \<and>
   (\<forall>backend name bounds.
      report_of_result (setFakeWindowBounds backend name bounds) =
      report_of_invoke (backend ''set_fake_window_bounds'' [(''name'', arg_string name), (''bounds'', arg_bounds bounds)])) \<and>
   (\<forall>backend name.
      report_of_result (removeFakeWindow backend name) =
      report_of_invoke (backend ''remove_fake_window'' [(''name'', arg_string name)])) \<and>
   (\<forall>backend.
      report_of_plain (focusCapturesPanel backend) =
      report_of_plain (backend ''focus_captures_panel'' [])) \<and>
   (\<forall>backend.
      report_of_result (getCurrentRecording backend) =
      report_of_invoke (backend ''get_current_recording'' [])) \<and>
   (\<forall>backend outputPath videoId project progressChannel.
      report_of_plain (renderToFile backend outputPath videoId project progressChannel) =
      report_of_plain (backend ''render_to_file'' [(''outputPath'', arg_string outputPath), (''videoId'', arg_string videoId), (''project'', arg_project project), (''progressChannel'', arg_channel progressChannel)])) \<and>
   (\<forall>backend videoId project.
      report_of_result (getRenderedVideo backend videoId project) =
      report_of_invoke (backend ''get_rendered_video'' [(''videoId'', arg_string videoId), (''project'', arg_project project)])) \<and>
   (\<forall>backend src dst.
      report_of_result (copyFileToPath backend src dst) =
      report_of_invoke (backend ''copy_file_to_path'' [(''src'', arg_string src), (''dst'', arg_string dst)])) \<and>
   (\<forall>backend videoId project.
      report_of_result (copyRenderedVideoToClipboard backend videoId project) =
      report_of_invoke (backend ''copy_rendered_video_to_clipboard'' [(''videoId'', arg_string videoId), (''project'', arg_project project)])) \<and>
   (\<forall>backend videoId videoType.
      report_of_result (getVideoMetadata backend videoId videoType) =
      report_of_invoke (backend ''get_video_metadata'' [(''videoId'', arg_string videoId), (''videoType'', arg_video_type videoType)])) \<and>
   (\<forall>backend videoId.
      report_of_result (createEditorInstance backend videoId) =
      report_of_invoke (backend ''create_editor_instance'' [(''videoId'', arg_string videoId)])) \<and>
   (\<forall>backend videoId project.
      report_of_plain (startPlayback backend videoId project) =
      report_of_plain (backend ''start_playback'' [(''videoId'', arg_string videoId), (''project'', arg_project project)])) \<and>
   (\<forall>backend videoId.
      report_of_plain (stopPlayback backend videoId) =
      report_of_plain (backend ''stop_playback'' [(''videoId'', arg_string videoId)])) \<and>
   (\<forall>backend videoId frameNumber.
      report_of_plain (setPlayheadPosition backend videoId frameNumber) =
      report_of_plain (backend ''set_playhead_position'' [(''videoId'', arg_string videoId), (''frameNumber'', arg_number frameNumber)])) \<and>
   (\<forall>backend path.
      report_of_plain (openInFinder backend path) =
      report_of_plain (backend ''open_in_finder'' [(''path'', arg_string path)])) \<and>
   (\<forall>backend videoId config.
      report_of_plain (saveProjectConfig backend videoId config) =
      report_of_plain (backend ''save_project_config'' [(''videoId'', arg_string videoId), (''config'', arg_project config)])) \<and>
   (\<forall>backend editor_id.
      report_of_plain (openEditor backend editor_id) =
      report_of_plain (backend ''open_editor'' [(''id'', arg_string editor_id)])) \<and>
   (\<forall>backend.
      report_of_plain (openMainWindow backend) =
      report_of_plain (backend ''open_main_window'' [])) \<and>
   (\<forall>backend settings.
      report_of_plain (openPermissionSettings backend settings) =
      report_of_plain (backend ''open_permission_settings'' [(''settings'', arg_settings settings)])) \<and>
   (\<forall>backend.
      report_of_plain (doPermissionsCheck backend) =
      report_of_plain (backend ''do_permissions_check'' []))"
  unfolding
    getRecordingOptions_def setRecordingOptions_def createCameraWindow_def
    startRecording_def stopRecording_def listCameras_def listCaptureWindows_def
    listAudioDevices_def getPrevRecordings_def showPreviousRecordingsWindow_def
    closePreviousRecordingsWindow_def setFakeWindowBounds_def removeFakeWindow_def
    focusCapturesPanel_def getCurrentRecording_def renderToFile_def
    getRenderedVideo_def copyFileToPath_def copyRenderedVideoToClipboard_def
    getVideoMetadata_def createEditorInstance_def startPlayback_def stopPlayback_def
    setPlayheadPosition_def openInFinder_def saveProjectConfig_def openEditor_def
    openMainWindow_def openPermissionSettings_def doPermissionsCheck_def
  by (intro conjI allI result_command_report void_command_report plain_command_report)

section \<open>Properties of the render engine\<close>

subsection \<open>The invariant of a render job\<close>

text \<open>
  The invariant holds when the job starts and every step keeps it, so it holds after any
  sequence of inputs.
\<close>

lemma temporary_path_differs: "temporary_path outputPath \<noteq> outputPath"
  by (simp add: temporary_path_def)

lemma revised_totals_append:
  "revised_totals (xs @ ys) = revised_totals xs @ revised_totals ys"
  by (induction xs rule: revised_totals.induct) simp_all

lemma start_render_invariant:
  "render_invariant encode estimate outputPath fs (start_render estimate outputPath fs)"
  using temporary_path_differs [of outputPath]
  by (simp add: render_invariant_def start_render_def)

lemma render_step_invariant:
  assumes "render_invariant encode estimate outputPath fs j"
  shows "render_invariant encode estimate outputPath fs (render_step encode j input)"
proof (cases "phase j")
  case Rendering
  define R where "R = revised_totals (progress j)"
  define k where "k = frames_encoded j"
  define tmp where "tmp = temporary_path outputPath"
  have differ: "tmp \<noteq> outputPath"
    unfolding tmp_def by (rule temporary_path_differs)
  from assms Rendering have
    out: "output_path j = outputPath" and
    bound: "k \<le> total_frames j" and
    events: "progress j =
      Starting (real estimate) # map EstimatedTotalFrames R @
      map (\<lambda>i. FrameRendered (real i)) [0..<k]" and
    total: "real (total_frames j) = last (real estimate # R)" and
    final: "files j outputPath = fs outputPath" and
    temp: "files j tmp = Some (map encode [0..<k])"
    by (simp_all add: render_invariant_def R_def k_def tmp_def)
  show ?thesis
  proof (cases input)
    case (Revise n)
    show ?thesis
    proof (cases "frames_encoded j = 0 \<and> total_frames j < n")
      case True
      then have k0: "k = 0" by (simp add: k_def)
      let ?j = "j \<lparr> total_frames := n,
                   progress := progress j @ [EstimatedTotalFrames (real n)] \<rparr>"
      have step: "render_step encode j input = ?j"
        using Rendering Revise True by (simp add: render_step_def)
      have totals: "revised_totals (progress ?j) = R @ [real n]"
        by (simp add: revised_totals_append R_def)
      have "progress ?j =
          Starting (real estimate) # map EstimatedTotalFrames (R @ [real n]) @
          map (\<lambda>i. FrameRendered (real i)) [0..<frames_encoded ?j]"
        using events k0 by (simp add: k_def)
      moreover have "real (total_frames ?j) = last (real estimate # R @ [real n])" by simp
      ultimately show ?thesis
        unfolding step render_invariant_def totals
        using out True Rendering final temp by (simp add: k_def tmp_def)
    next
      case False
      then have "render_step encode j input = j"
        using Rendering Revise by (auto simp: render_step_def)
      with assms show ?thesis by simp
    qed
  next
    case Advance
    show ?thesis
    proof (cases "frames_encoded j < total_frames j")
      case True
      let ?j = "j \<lparr> frames_encoded := Suc k,
                   progress := progress j @ [FrameRendered (real k)],
                   files := write_frame (files j) tmp (encode k) \<rparr>"
      have step: "render_step encode j input = ?j"
        using Rendering Advance True out by (simp add: render_step_def k_def tmp_def)
      have totals: "revised_totals (progress ?j) = R"
        by (simp add: revised_totals_append R_def)
      have "progress ?j =
          Starting (real estimate) # map EstimatedTotalFrames R @
          map (\<lambda>i. FrameRendered (real i)) [0..<frames_encoded ?j]"
        using events by simp
      moreover have "files ?j outputPath = fs outputPath"
        using final differ by (simp add: write_frame_def)
      moreover have "files ?j tmp = Some (map encode [0..<Suc k])"
        using temp by (simp add: write_frame_def)
      ultimately show ?thesis
        unfolding step render_invariant_def totals
        using out True Rendering total by (simp add: k_def tmp_def)
    next
      case False
      with bound have all: "k = total_frames j" by (simp add: k_def)
      let ?j = "j \<lparr> phase := Succeeded, files := rename_file (files j) tmp outputPath \<rparr>"
      have step: "render_step encode j input = ?j"
        using Rendering Advance False out by (simp add: render_step_def tmp_def)
      have "files ?j outputPath = Some (map encode [0..<total_frames j])"
        using temp differ all by (simp add: rename_file_def)
      moreover have "files ?j tmp = None"
        by (simp add: rename_file_def)
      moreover have "progress ?j =
          Starting (real estimate) # map EstimatedTotalFrames (revised_totals (progress ?j)) @
          map (\<lambda>i. FrameRendered (real i)) [0..<frames_encoded ?j]"
        using events by (simp add: R_def k_def)
      ultimately show ?thesis
        unfolding step render_invariant_def
        using out all total by (simp add: k_def tmp_def R_def)
    qed
  next
    case (Interrupt why)
    let ?j = "j \<lparr> phase := Stopped why, files := remove_file (files j) tmp \<rparr>"
    have step: "render_step encode j input = ?j"
      using Rendering Interrupt out by (simp add: render_step_def tmp_def)
    have "files ?j outputPath = fs outputPath"
      using final differ by (simp add: remove_file_def)
    moreover have "files ?j tmp = None"
      by (simp add: remove_file_def)
    moreover have "progress ?j =
        Starting (real estimate) # map EstimatedTotalFrames (revised_totals (progress ?j)) @
        map (\<lambda>i. FrameRendered (real i)) [0..<frames_encoded ?j]"
      using events by (simp add: R_def k_def)
    ultimately show ?thesis
      unfolding step render_invariant_def
      using out bound total by (simp add: k_def tmp_def R_def)
  qed
next
  case Succeeded
  with assms show ?thesis by (simp add: render_step_def)
next
  case (Stopped why)
  with assms show ?thesis by (simp add: render_step_def)
qed

lemma render_steps_invariant:
  "render_invariant encode estimate outputPath fs j \<Longrightarrow>
   render_invariant encode estimate outputPath fs (foldl (render_step encode) j inputs)"
proof (induction inputs arbitrary: j)
  case Nil
  then show ?case by simp
next
  case (Cons input inputs)
  from Cons.prems have "render_invariant encode estimate outputPath fs (render_step encode j input)"
    by (rule render_step_invariant)
  then show ?case using Cons.IH by simp
qed

lemma render_invariant_holds:
  "render_invariant encode estimate outputPath fs (render encode estimate outputPath fs inputs)"
  unfolding render_def by (rule render_steps_invariant) (rule start_render_invariant)

subsection \<open>Termination of a render job\<close>

text \<open>A job that has succeeded or stopped takes no further step.\<close>

lemma render_step_terminated:
  "phase j \<noteq> Rendering \<Longrightarrow> render_step encode j input = j"
  by (cases "phase j") (simp_all add: render_step_def)

lemma render_steps_terminated:
  "phase j \<noteq> Rendering \<Longrightarrow> foldl (render_step encode) j inputs = j"
  by (induction inputs) (simp_all add: render_step_terminated)

lemma render_terminated_stays:
  "phase (render encode estimate outputPath fs inputs) \<noteq> Rendering \<Longrightarrow>
   render encode estimate outputPath fs (inputs @ later) =
   render encode estimate outputPath fs inputs"
  by (simp add: render_def render_steps_terminated)

text \<open>
  A running job that is not interrupted succeeds: one step per frame still to encode, and
  one more for the rename.
\<close>

lemma uninterrupted_steps_succeed:
  "phase j = Rendering \<Longrightarrow> total_frames j - frames_encoded j = d \<Longrightarrow>
   phase (foldl (render_step encode) j (replicate (Suc d) Advance)) = Succeeded"
proof (induction d arbitrary: j)
  case 0
  then show ?case by (simp add: render_step_def)
next
  case (Suc d)
  let ?j = "render_step encode j Advance"
  from Suc.prems have more: "frames_encoded j < total_frames j" by simp
  with Suc.prems have "phase ?j = Rendering" "total_frames ?j - frames_encoded ?j = d"
    by (simp_all add: render_step_def)
  then have "phase (foldl (render_step encode) ?j (replicate (Suc d) Advance)) = Succeeded"
    by (rule Suc.IH)
  then show ?case by simp
qed

lemma uninterrupted_render_succeeds:
  "phase (render encode estimate outputPath fs (replicate (Suc estimate) Advance)) = Succeeded"
  unfolding render_def
  by (rule uninterrupted_steps_succeed) (simp_all add: start_render_def)

lemma last_rendered_frame:
  "0 < k \<Longrightarrow>
   last (x # xs @ map (\<lambda>i. FrameRendered (real i)) [0..<k]) = FrameRendered (real k - 1)"
  by (cases k) simp_all

lemmas render_eval =
  render_def start_render_def render_step_def temporary_path_def write_frame_def
  rename_file_def remove_file_def example_encode_def empty_disk_def
  disk_with_earlier_export_def

subsection \<open>The order of the progress stream\<close>

text \<open>
  C1. For every render job, at every moment of its run, the stream emitted so far is one
  \<open>Starting\<close> with the estimate, then zero or more \<open>EstimatedTotalFrames\<close>, all before
  the first \<open>FrameRendered\<close>, then \<open>FrameRendered\<close> with the indices \<open>0, 1, 2, ...\<close> in
  order, strictly increasing, none skipped, none beyond the total announced last. When
  the run has reached its terminal success, every frame of the total announced last was
  rendered, so the final \<open>FrameRendered\<close> carries that total minus one. A job that has
  terminated, with success or not, emits nothing further, whatever happens later. A job
  that is not interrupted does reach its terminal success.
\<close>

theorem render_progress_order:
  "(let J = render encode estimate outputPath fs inputs in
      progress J =
        Starting (real estimate) # map EstimatedTotalFrames (revised_totals (progress J)) @
        map (\<lambda>i. FrameRendered (real i)) [0..<frames_encoded J] \<and>
      real (total_frames J) = last (real estimate # revised_totals (progress J)) \<and>
      frames_encoded J \<le> total_frames J \<and>
      (phase J = Succeeded \<longrightarrow> frames_encoded J = total_frames J) \<and>
      (phase J = Succeeded \<and> 0 < total_frames J \<longrightarrow>
         last (progress J) = FrameRendered (real (total_frames J) - 1)) \<and>
      (phase J \<noteq> Rendering \<longrightarrow>
         (\<forall>later. render encode estimate outputPath fs (inputs @ later) = J))) \<and>
   phase (render encode estimate outputPath fs (replicate (Suc estimate) Advance)) = Succeeded"
proof -
  define J where "J = render encode estimate outputPath fs inputs"
  have inv: "render_invariant encode estimate outputPath fs J"
    unfolding J_def by (rule render_invariant_holds)
  then have
    events: "progress J =
        Starting (real estimate) # map EstimatedTotalFrames (revised_totals (progress J)) @
        map (\<lambda>i. FrameRendered (real i)) [0..<frames_encoded J]" and
    total: "real (total_frames J) = last (real estimate # revised_totals (progress J))" and
    bound: "frames_encoded J \<le> total_frames J"
    by (simp_all add: render_invariant_def)
  have complete: "frames_encoded J = total_frames J" if "phase J = Succeeded"
    using inv that by (simp add: render_invariant_def)
  have final: "last (progress J) = FrameRendered (real (total_frames J) - 1)"
    if "phase J = Succeeded" "0 < total_frames J"
  proof -
    from that have "0 < frames_encoded J" by (simp add: complete)
    then have "last (Starting (real estimate) #
        map EstimatedTotalFrames (revised_totals (progress J)) @
        map (\<lambda>i. FrameRendered (real i)) [0..<frames_encoded J]) =
        FrameRendered (real (frames_encoded J) - 1)"
      by (rule last_rendered_frame)
    with events that show ?thesis by (simp add: complete)
  qed
  have silent: "render encode estimate outputPath fs (inputs @ later) = J"
    if "phase J \<noteq> Rendering" for later
    using that unfolding J_def by (rule render_terminated_stays)
  have reached:
    "phase (render encode estimate outputPath fs (replicate (Suc estimate) Advance)) = Succeeded"
    by (rule uninterrupted_render_succeeds)
  from events total bound complete final silent reached show ?thesis
    unfolding J_def [symmetric] Let_def by blast
qed

theorem render_progress_order_witness:
  "phase (render example_encode 3 ''out.mp4'' empty_disk
            [Revise 4, Advance, Advance, Advance, Advance, Advance]) = Succeeded \<and>
   progress (render example_encode 3 ''out.mp4'' empty_disk
            [Revise 4, Advance, Advance, Advance, Advance, Advance]) =
     [Starting 3, EstimatedTotalFrames 4, FrameRendered 0, FrameRendered 1,
      FrameRendered 2, FrameRendered 3] \<and>
   total_frames (render example_encode 3 ''out.mp4'' empty_disk
            [Revise 4, Advance, Advance, Advance, Advance, Advance]) = 4 \<and>
   last (progress (render example_encode 3 ''out.mp4'' empty_disk
            [Revise 4, Advance, Advance, Advance, Advance, Advance])) = FrameRendered (4 - 1) \<and>
   render example_encode 3 ''out.mp4'' empty_disk
     ([Revise 4, Advance, Advance, Advance, Advance, Advance] @ [Advance, Revise 9]) =
   render example_encode 3 ''out.mp4'' empty_disk
     [Revise 4, Advance, Advance, Advance, Advance, Advance]"
proof -
  let ?J = "render example_encode 3 ''out.mp4'' empty_disk
            [Revise 4, Advance, Advance, Advance, Advance, Advance]"
  note order = render_progress_order [of example_encode 3 "''out.mp4''" empty_disk
        "[Revise 4, Advance, Advance, Advance, Advance, Advance]", unfolded Let_def]
  have succeeded: "phase ?J = Succeeded"
    by (simp add: render_eval)
  have total: "total_frames ?J = 4"
    by (simp add: render_eval)
  have events: "progress ?J =
     [Starting 3, EstimatedTotalFrames 4, FrameRendered 0, FrameRendered 1,
      FrameRendered 2, FrameRendered 3]"
    by (simp add: render_eval)
  have "last (progress ?J) = FrameRendered (real (total_frames ?J) - 1)"
    using order succeeded total by linarith
  then have final: "last (progress ?J) = FrameRendered (4 - 1)"
    by (simp add: total)
  have terminated: "phase ?J \<noteq> Rendering"
    by (simp add: succeeded)
  have silent: "render example_encode 3 ''out.mp4'' empty_disk
     ([Revise 4, Advance, Advance, Advance, Advance, Advance] @ [Advance, Revise 9]) = ?J"
    using order terminated by blast
  from succeeded events total final silent show ?thesis by blast
qed

subsection \<open>The output file\<close>




section \<open>Properties of the editor instance\<close>




end
